theory Spec2Isabelle
  imports Main "HOL-Library.Word"
begin

unbundle bit_operations_syntax

section \<open>The FIQ demo driver (drivers/irqchip/firq/firq_driver.c)\<close>

text \<open>
  The driver targets 32-bit ARM: pointers, \<open>u32\<close>, \<open>unsigned int\<close> and \<open>int\<close> are
  32 bits wide. Pointers into \<open>__iomem\<close> windows are plain 32-bit addresses and
  pointer arithmetic wraps modulo \<open>2 ^ 32\<close>.
\<close>

type_synonym u32 = "32 word"
type_synonym u8 = "8 word"
type_synonym cpu = nat

subsection \<open>Data\<close>

text \<open>\<open>struct firq_priv\<close>. The field \<open>irq\<close> is a C \<open>int\<close>: it is kept as its 32-bit
  pattern and read with \<open>sint\<close> where the source compares it with 0.\<close>

record firq_priv =
  gic_cpu_regs :: u32
  ocram_regs :: u32
  epit2_regs :: u32
  irq :: u32

text \<open>The part of \<open>struct pt_regs\<close> that \<open>get_fiq_regs\<close> and \<open>set_fiq_regs\<close> transfer:
  the registers banked in FIQ mode, r8 to r14.\<close>

record pt_regs =
  ARM_r8 :: u32
  ARM_r9 :: u32
  ARM_r10 :: u32
  ARM_fp :: u32
  ARM_ip :: u32
  ARM_sp :: u32
  ARM_lr :: u32

text \<open>Every call the driver makes into the kernel, and every assignment to the
  driver's global flag, is recorded in program order together with the core that
  executes it.\<close>

datatype action =
    DevmKzalloc
  | PlatformGetIrq
  | DevmIoremap u32 u32
  | DevErr string
  | DevInfo string
  | PrintHexDump u32 u32
  | ClaimFiq
  | SetFiqHandler u32 u32
  | Writel u32 u32
  | Dmb
  | WorkOnCpu cpu
  | WorkDone cpu
  | GetFiqRegs
  | SetFiqRegs
  | PlatformSetDrvdata
  | EnableFiq u32
  | DisableFiq u32
  | LocalFiqDisable
  | LocalFiqEnable
  | ReleaseFiq
  | SetSingleton bool

type_synonym event = "cpu \<times> action"

text \<open>What the platform answers to one call of \<open>firq_probe\<close>: the outcome of the
  allocation, the interrupt number, the virtual address \<open>devm_ioremap\<close> returns for a
  physical address (0 is \<open>NULL\<close>), the return value of \<open>claim_fiq\<close>, the two linker
  symbols that delimit the handler code, and the possible-CPU mask.\<close>

record host =
  kzalloc_ok :: bool
  platform_irq :: u32
  ioremap :: "u32 \<Rightarrow> u32"
  claim_fiq_ret :: int
  firq_fiq_handler :: u32
  firq_fiq_handler_end :: u32
  nr_cpu_ids :: nat
  cpu_possible :: "cpu \<Rightarrow> bool"

text \<open>The state the driver reads and writes: its global flag \<open>firq_singleton\<close>,
  whether the FIQ vector is held by the driver's handler descriptor \<open>fh\<close>, byte-addressed
  memory behind the \<open>__iomem\<close> pointers, the FIQ register bank and the FIQ mask bit
  of every core, the interrupt lines routed as FIQ, the installed handler code, the
  platform device's driver data, and the record of actions.\<close>

record kstate =
  firq_singleton :: bool
  fh_claimed :: bool
  iomem :: "u32 \<Rightarrow> u8"
  fiq_bank :: "cpu \<Rightarrow> pt_regs"
  fiq_masked :: "cpu \<Rightarrow> bool"
  fiq_enabled :: "u32 \<Rightarrow> bool"
  fiq_handler :: "(u32 \<times> u32) option"
  drvdata :: "firq_priv option"
  trace :: "event list"

subsection \<open>Error numbers\<close>

definition EBUSY :: int where "EBUSY = 16"
definition ENOMEM :: int where "ENOMEM = 12"
definition EINVAL :: int where "EINVAL = 22"
definition ENODEV :: int where "ENODEV = 19"

subsection \<open>Kernel services used by the driver\<close>

definition emit :: "cpu \<Rightarrow> action \<Rightarrow> kstate \<Rightarrow> kstate" where
  "emit c a s = s\<lparr>trace := trace s @ [(c, a)]\<rparr>"

text \<open>A 32-bit little-endian store and load on byte-addressed memory.\<close>

definition store32 :: "(u32 \<Rightarrow> u8) \<Rightarrow> u32 \<Rightarrow> u32 \<Rightarrow> (u32 \<Rightarrow> u8)" where
  "store32 m a v =
     m(a := ucast v,
       a + 1 := ucast (drop_bit 8 v),
       a + 2 := ucast (drop_bit 16 v),
       a + 3 := ucast (drop_bit 24 v))"

definition load32 :: "(u32 \<Rightarrow> u8) \<Rightarrow> u32 \<Rightarrow> u32" where
  "load32 m a =
     ucast (m a) OR push_bit 8 (ucast (m (a + 1))) OR
     push_bit 16 (ucast (m (a + 2))) OR push_bit 24 (ucast (m (a + 3)))"

definition writel :: "cpu \<Rightarrow> u32 \<Rightarrow> u32 \<Rightarrow> kstate \<Rightarrow> kstate" where
  "writel c v a s = emit c (Writel v a) (s\<lparr>iomem := store32 (iomem s) a v\<rparr>)"

definition readl :: "kstate \<Rightarrow> u32 \<Rightarrow> u32" where
  "readl s a = load32 (iomem s) a"

definition get_fiq_regs :: "cpu \<Rightarrow> kstate \<Rightarrow> pt_regs \<times> kstate" where
  "get_fiq_regs c s = (fiq_bank s c, emit c GetFiqRegs s)"

definition set_fiq_regs :: "cpu \<Rightarrow> pt_regs \<Rightarrow> kstate \<Rightarrow> kstate" where
  "set_fiq_regs c regs s = emit c SetFiqRegs (s\<lparr>fiq_bank := (fiq_bank s)(c := regs)\<rparr>)"

text \<open>\<open>claim_fiq\<close> returns what the platform decides; on 0 the vector belongs to \<open>fh\<close>.\<close>

definition claim_fiq :: "cpu \<Rightarrow> host \<Rightarrow> kstate \<Rightarrow> int \<times> kstate" where
  "claim_fiq c h s =
     (claim_fiq_ret h,
      emit c ClaimFiq (if claim_fiq_ret h = 0 then s\<lparr>fh_claimed := True\<rparr> else s))"

definition release_fiq :: "cpu \<Rightarrow> kstate \<Rightarrow> kstate" where
  "release_fiq c s = emit c ReleaseFiq (s\<lparr>fh_claimed := False\<rparr>)"

definition set_fiq_handler :: "cpu \<Rightarrow> u32 \<Rightarrow> u32 \<Rightarrow> kstate \<Rightarrow> kstate" where
  "set_fiq_handler c start len s =
     emit c (SetFiqHandler start len) (s\<lparr>fiq_handler := Some (start, len)\<rparr>)"

definition enable_fiq :: "cpu \<Rightarrow> u32 \<Rightarrow> kstate \<Rightarrow> kstate" where
  "enable_fiq c n s = emit c (EnableFiq n) (s\<lparr>fiq_enabled := (fiq_enabled s)(n := True)\<rparr>)"

definition disable_fiq :: "cpu \<Rightarrow> u32 \<Rightarrow> kstate \<Rightarrow> kstate" where
  "disable_fiq c n s = emit c (DisableFiq n) (s\<lparr>fiq_enabled := (fiq_enabled s)(n := False)\<rparr>)"

definition local_fiq_disable :: "cpu \<Rightarrow> kstate \<Rightarrow> kstate" where
  "local_fiq_disable c s = emit c LocalFiqDisable (s\<lparr>fiq_masked := (fiq_masked s)(c := True)\<rparr>)"

definition local_fiq_enable :: "cpu \<Rightarrow> kstate \<Rightarrow> kstate" where
  "local_fiq_enable c s = emit c LocalFiqEnable (s\<lparr>fiq_masked := (fiq_masked s)(c := False)\<rparr>)"

definition platform_set_drvdata :: "cpu \<Rightarrow> firq_priv \<Rightarrow> kstate \<Rightarrow> kstate" where
  "platform_set_drvdata c priv s = emit c PlatformSetDrvdata (s\<lparr>drvdata := Some priv\<rparr>)"

text \<open>\<open>work_on_cpu(cpu, fn, arg)\<close> called on core \<open>c\<close>: \<open>fn\<close> runs on core \<open>cpu\<close> and the
  caller continues with its return value once it has finished.\<close>

definition work_on_cpu ::
    "cpu \<Rightarrow> cpu \<Rightarrow> (cpu \<Rightarrow> kstate \<Rightarrow> int \<times> kstate) \<Rightarrow> kstate \<Rightarrow> int \<times> kstate" where
  "work_on_cpu c target fn s =
     (let (r, s') = fn target (emit c (WorkOnCpu target) s)
      in (r, emit c (WorkDone target) s'))"

text \<open>\<open>for_each_possible_cpu\<close> visits the set bits of the possible-CPU mask in
  ascending order.\<close>

definition for_each_possible_cpu :: "host \<Rightarrow> cpu list" where
  "for_each_possible_cpu h = filter (cpu_possible h) [0..<nr_cpu_ids h]"

subsection \<open>The driver\<close>

definition firq_setup_fiq_regs_cpu :: "firq_priv \<Rightarrow> cpu \<Rightarrow> kstate \<Rightarrow> int \<times> kstate" where
  "firq_setup_fiq_regs_cpu priv c s =
     (let (fiq_regs, s1) = get_fiq_regs c s;
          fiq_regs' = fiq_regs\<lparr>ARM_sp := ocram_regs priv\<rparr>;
          s2 = set_fiq_regs c fiq_regs' s1
      in (0, s2))"

text \<open>The loop \<open>for (i = 0; i < 0x100; i += 4) writel(0, priv->ocram_regs + i)\<close>,
  entered with the current value of \<open>i\<close>.\<close>

function erase_loop :: "cpu \<Rightarrow> firq_priv \<Rightarrow> int \<Rightarrow> kstate \<Rightarrow> kstate" where
  "erase_loop c priv i s =
     (if i < 0x100
      then erase_loop c priv (i + 4) (writel c 0 (ocram_regs priv + word_of_int i) s)
      else s)"
  by pat_completeness auto
termination
  by (relation "measure (\<lambda>(c, priv, i, s). nat (0x100 - i))") auto

text \<open>The loop \<open>for (i = 0; i < ARRAY_SIZE(ocram_setupdata); i++)
  writel(ocram_setupdata[i], priv->ocram_regs + (4 * i))\<close>.\<close>

function preload_loop :: "cpu \<Rightarrow> firq_priv \<Rightarrow> u32 list \<Rightarrow> int \<Rightarrow> kstate \<Rightarrow> kstate" where
  "preload_loop c priv ocram_setupdata i s =
     (if i < int (length ocram_setupdata)
      then preload_loop c priv ocram_setupdata (i + 1)
             (writel c (ocram_setupdata ! nat i) (ocram_regs priv + word_of_int (4 * i)) s)
      else s)"
  by pat_completeness auto
termination
  by (relation "measure (\<lambda>(c, priv, d, i, s). nat (int (length d) - i))") auto

text \<open>The loop \<open>for_each_possible_cpu(cpu) work_on_cpu(cpu, firq_setup_fiq_regs_cpu, priv)\<close>
  over the cores still to visit; the return value of \<open>work_on_cpu\<close> is dropped.\<close>

fun dispatch_loop :: "cpu \<Rightarrow> firq_priv \<Rightarrow> cpu list \<Rightarrow> kstate \<Rightarrow> kstate" where
  "dispatch_loop c priv [] s = s"
| "dispatch_loop c priv (t # ts) s =
     dispatch_loop c priv ts (snd (work_on_cpu c t (firq_setup_fiq_regs_cpu priv) s))"

definition firq_setup_fiq_regs :: "cpu \<Rightarrow> host \<Rightarrow> firq_priv \<Rightarrow> kstate \<Rightarrow> kstate" where
  "firq_setup_fiq_regs c h priv s =
     (let ocram_setupdata = [gic_cpu_regs priv, irq priv, epit2_regs priv];
          s1 = erase_loop c priv 0 s;
          s2 = preload_loop c priv ocram_setupdata 0 s1;
          s3 = emit c Dmb s2
      in dispatch_loop c priv (for_each_possible_cpu h) s3)"

text \<open>\<open>firq_probe\<close>, called on core \<open>c\<close>. The result is the returned \<open>int\<close> and
  the state at the return.\<close>

definition firq_probe :: "cpu \<Rightarrow> host \<Rightarrow> kstate \<Rightarrow> int \<times> kstate" where
  "firq_probe c h s =
     (let fiq_handler_size = firq_fiq_handler_end h - firq_fiq_handler h in
      if firq_singleton s then (- EBUSY, s)
      else
        let s1 = emit c DevmKzalloc s in
        if \<not> kzalloc_ok h then (- ENOMEM, s1)
        else
          let priv0 = \<lparr>gic_cpu_regs = 0, ocram_regs = 0, epit2_regs = 0, irq = 0\<rparr>;
              priv1 = priv0\<lparr>irq := platform_irq h\<rparr>;
              s2 = emit c PlatformGetIrq s1
          in
          if sint (irq priv1) < 0 then (- EINVAL, emit c (DevErr ''no IRQ defined'') s2)
          else
            let priv2 = priv1\<lparr>gic_cpu_regs := ioremap h 0x00a00100\<rparr>;
                s3 = emit c (DevmIoremap 0x00a00100 0x100) s2;
                priv3 = priv2\<lparr>ocram_regs := ioremap h 0x00940000\<rparr>;
                s4 = emit c (DevmIoremap 0x00940000 0x1000) s3;
                priv = priv3\<lparr>epit2_regs := ioremap h 0x020d4000\<rparr>;
                s5 = emit c (DevmIoremap 0x020d4000 0x4000) s4
            in
            if gic_cpu_regs priv = 0 \<or> ocram_regs priv = 0 \<or> epit2_regs priv = 0
            then (- EINVAL, emit c (DevErr ''ioremap failed'') s5)
            else
              let s6 = emit c (DevErr ''gic ocram epit irq'') s5;
                  (ret, s7) = claim_fiq c h s6
              in
              if ret \<noteq> 0 then (- ENODEV, emit c (DevErr ''couldn't claim FIQ.'') s7)
              else
                let s8 = emit c (DevInfo ''FIQ handler: start size'') s7;
                    s9 = emit c (PrintHexDump (firq_fiq_handler h) fiq_handler_size) s8;
                    s10 = emit c (DevInfo ''registering FIQ handler'') s9;
                    s11 = set_fiq_handler c (firq_fiq_handler h) fiq_handler_size s10;
                    s12 = firq_setup_fiq_regs c h priv s11;
                    s13 = emit c (DevInfo ''FIQ handler registered'') s12;
                    s14 = platform_set_drvdata c priv s13;
                    s15 = emit c (DevInfo ''Enabling FIQ'') s14;
                    s16 = enable_fiq c (irq priv) s15;
                    s17 = emit c (DevInfo ''FIQ enabled'') s16;
                    s18 = emit c (SetSingleton True) (s17\<lparr>firq_singleton := True\<rparr>);
                    s19 = writel c 0x0 (epit2_regs priv + 0x0) s18;
                    s20 = writel c 0xffff (epit2_regs priv + 0x8) s19;
                    s21 = writel c 0x1 (epit2_regs priv + 0x4) s20;
                    s22 = writel c
                            (push_bit 0 1 OR push_bit 1 1 OR push_bit 2 1 OR push_bit 3 1 OR
                             push_bit 19 1 OR push_bit 24 0x2)
                            (epit2_regs priv + 0x0) s21;
                    s23 = writel c 0xffff (epit2_regs priv + 0x8) s22;
                    s24 = writel c 0x1 (epit2_regs priv + 0x4) s23
                in (0, s24))"

definition firq_remove_cpu0 :: "firq_priv \<Rightarrow> cpu \<Rightarrow> kstate \<Rightarrow> int \<times> kstate" where
  "firq_remove_cpu0 priv c s =
     (let s1 = local_fiq_disable c s;
          s2 = writel c 0x0 (epit2_regs priv + 0x0) s1;
          s3 = disable_fiq c (irq priv) s2;
          s4 = local_fiq_enable c s3;
          s5 = release_fiq c s4;
          s6 = emit c (SetSingleton False) (s5\<lparr>firq_singleton := False\<rparr>)
      in (0, s6))"

text \<open>\<open>firq_remove\<close>, called on core \<open>c\<close>. \<open>platform_get_drvdata\<close> yields the pointer
  stored by \<open>firq_probe\<close>; with no driver data the pointer is \<open>NULL\<close> and the
  dereference in \<open>firq_remove_cpu0\<close> faults, which is the result \<open>None\<close>.\<close>

definition firq_remove :: "cpu \<Rightarrow> kstate \<Rightarrow> (int \<times> kstate) option" where
  "firq_remove c s =
     (case drvdata s of
        None \<Rightarrow> None
      | Some priv \<Rightarrow>
          Some (work_on_cpu c 0 (firq_remove_cpu0 priv)
                  (emit c (DevInfo ''Removing module'') s)))"


subsection \<open>Notions used to state the properties\<close>

text \<open>The \<open>firq_priv\<close> that \<open>firq_probe\<close> has filled in when it reaches \<open>claim_fiq\<close>.\<close>

definition probe_priv :: "host \<Rightarrow> firq_priv" where
  "probe_priv h =
     \<lparr>gic_cpu_regs = ioremap h 0x00a00100, ocram_regs = ioremap h 0x00940000,
      epit2_regs = ioremap h 0x020d4000, irq = platform_irq h\<rparr>"

text \<open>The platform answers under which \<open>firq_probe\<close> passes all its checks.\<close>

definition resources_valid :: "host \<Rightarrow> bool" where
  "resources_valid h \<longleftrightarrow>
     kzalloc_ok h \<and> 0 \<le> sint (platform_irq h) \<and> ioremap h 0x00a00100 \<noteq> 0 \<and>
     ioremap h 0x00940000 \<noteq> 0 \<and> ioremap h 0x020d4000 \<noteq> 0"

text \<open>The events a call added to the record, and the register writes among them
  as (value, address) pairs in program order.\<close>

definition new_events :: "kstate \<Rightarrow> kstate \<Rightarrow> event list" where
  "new_events s s' = drop (length (trace s)) (trace s')"

fun writes_of :: "event list \<Rightarrow> (u32 \<times> u32) list" where
  "writes_of [] = []"
| "writes_of ((c, Writel v a) # es) = (v, a) # writes_of es"
| "writes_of (e # es) = writes_of es"

text \<open>The words of the 256-byte block at \<open>base\<close>, read back in address order.\<close>

definition read_block :: "kstate \<Rightarrow> u32 \<Rightarrow> u32 list" where
  "read_block s base = map (\<lambda>k. readl s (base + 4 * of_nat k)) [0..<64]"

text \<open>The write sequence of the timer start as section 4.5 of the specification words
  it, for a timer at \<open>timer\<close> with control register at offset 0, status register at
  offset 4 and load register at offset 8: disable, set the reload value, clear the
  status, write the control word, clear the status again.\<close>

definition periodic_trigger_start_spec :: "u32 \<Rightarrow> u32 \<Rightarrow> u32 \<Rightarrow> (u32 \<times> u32) list" where
  "periodic_trigger_start_spec timer period_ticks control =
     [(0, timer + 0x0), (period_ticks, timer + 0x8), (1, timer + 0x4),
      (control, timer + 0x0), (1, timer + 0x4)]"

subsection \<open>A concrete platform\<close>

text \<open>A four-core machine on which every request of \<open>firq_probe\<close> is granted, and an
  idle system.\<close>

definition host0 :: host where
  "host0 =
     \<lparr>kzalloc_ok = True, platform_irq = 89, ioremap = (\<lambda>p. p + 0xf0000000),
      claim_fiq_ret = 0, firq_fiq_handler = 0xc0008000, firq_fiq_handler_end = 0xc0008040,
      nr_cpu_ids = 4, cpu_possible = (\<lambda>c. True)\<rparr>"

definition regs0 :: pt_regs where
  "regs0 = \<lparr>ARM_r8 = 0, ARM_r9 = 0, ARM_r10 = 0, ARM_fp = 0, ARM_ip = 0, ARM_sp = 0, ARM_lr = 0\<rparr>"

definition s0 :: kstate where
  "s0 =
     \<lparr>firq_singleton = False, fh_claimed = False, iomem = (\<lambda>a. 0), fiq_bank = (\<lambda>c. regs0),
      fiq_masked = (\<lambda>c. False), fiq_enabled = (\<lambda>n. False), fiq_handler = None,
      drvdata = None, trace = []\<rparr>"

definition s_running :: kstate where
  "s_running = snd (firq_probe 0 host0 s0)"

text \<open>The same platform with an empty handler: the end symbol equals the start symbol.\<close>

definition host_empty_handler :: host where
  "host_empty_handler = host0\<lparr>firq_fiq_handler_end := 0xc0008000\<rparr>"

text \<open>The same platform with the FIQ vector owned by another client: \<open>claim_fiq\<close>
  returns \<open>-EBUSY\<close>.\<close>

definition host_vector_busy :: host where
  "host_vector_busy = host0\<lparr>claim_fiq_ret := - 16\<rparr>"

declare erase_loop.simps [simp del]
declare preload_loop.simps [simp del]

section \<open>Memory: stores and loads\<close>

lemma load32_store32_same: "load32 (store32 m a v) a = v"
  unfolding load32_def store32_def
  apply simp
  apply (rule bit_word_eqI)
  subgoal for n
    apply (cases "n < 8"; cases "n < 16"; cases "n < 24")
           apply (auto simp add: bit_simps)
    done
  done

lemma word_eq_plus_iff: "(a = b + k) = (unat (a - b) = unat (k::u32))"
proof -
  have "(a = b + k) = (a - b = k)" by auto
  then show ?thesis by (simp add: word_unat_eq_iff)
qed

lemma store32_zero_apply:
  "store32 m b 0 a = (if unat (a - b) < 4 then 0 else m a)"
proof -
  have e0: "(a = b) = (unat (a - b) = 0)" by (simp add: unat_eq_0)
  have e1: "(a = b + 1) = (unat (a - b) = 1)"
    using word_eq_plus_iff [of a b 1] by simp
  have e2: "(a = b + 2) = (unat (a - b) = 2)"
    using word_eq_plus_iff [of a b 2] by simp
  have e3: "(a = b + 3) = (unat (a - b) = 3)"
    using word_eq_plus_iff [of a b 3] by simp
  show ?thesis
    unfolding store32_def using e0 e1 e2 e3 by (auto simp: fun_upd_def)
qed

lemma unat_sub_window:
  fixes x w :: u32
  assumes "unat w + 4 \<le> 2 ^ 32"
  shows "(unat (x - w) < 4) = (unat w \<le> unat x \<and> unat x < unat w + 4)"
proof -
  have "unat x < 2 ^ 32" using unsigned_less [of x] by simp
  then show ?thesis using assms unfolding unat_sub_if' by (simp split: if_splits) arith
qed

lemma iomem_writel: "iomem (writel c v a s) = store32 (iomem s) a v"
  by (simp add: writel_def emit_def)

lemma iomem_erase_loop:
  "0 \<le> i \<Longrightarrow> i \<le> 0x100 \<Longrightarrow> i mod 4 = 0 \<Longrightarrow>
   iomem (erase_loop c priv i s) a =
     (if nat i \<le> unat (a - ocram_regs priv) \<and> unat (a - ocram_regs priv) < 0x100
      then 0 else iomem s a)"
proof (induction c priv i s rule: erase_loop.induct)
  case (1 c priv i s)
  show ?case
  proof (cases "i < 0x100")
    case False
    with "1.prems" have "i = 0x100" by simp
    then show ?thesis by (auto simp del: erase_loop.simps simp add: erase_loop.simps [of c priv 256 s])
  next
    case True
    with "1.prems" have le: "i + 4 \<le> 0x100" by presburger
    have m4: "(i + 4) mod 4 = 0" using "1.prems" by presburger
    have uw: "unat (word_of_int i :: u32) = nat i"
      using "1.prems" True by (simp add: unat_eq_nat_uint uint_word_of_int)
    have sub: "a - (ocram_regs priv + word_of_int i) = (a - ocram_regs priv) - word_of_int i"
      by simp
    have win: "(unat (a - (ocram_regs priv + word_of_int i)) < 4) =
               (nat i \<le> unat (a - ocram_regs priv) \<and> unat (a - ocram_regs priv) < nat i + 4)"
      unfolding sub using unat_sub_window [of "word_of_int i" "a - ocram_regs priv"] uw True
      by simp
    have step: "erase_loop c priv i s =
                erase_loop c priv (i + 4) (writel c 0 (ocram_regs priv + word_of_int i) s)"
      using True by (subst erase_loop.simps) simp
    have IH: "iomem (erase_loop c priv (i + 4) (writel c 0 (ocram_regs priv + word_of_int i) s)) a =
      (if nat (i + 4) \<le> unat (a - ocram_regs priv) \<and> unat (a - ocram_regs priv) < 0x100
       then 0 else iomem (writel c 0 (ocram_regs priv + word_of_int i) s) a)"
      using "1.IH" [OF True _ le m4] "1.prems" by simp
    have n4: "nat (i + 4) = nat i + 4" using "1.prems" by simp
    show ?thesis
      unfolding step IH n4 using win le "1.prems"
      by (auto simp: store32_zero_apply iomem_writel)
  qed
qed

section \<open>The loops of \<open>firq_setup_fiq_regs\<close>\<close>

lemma erase_loop_frame:
  "erase_loop c priv i s =
     s\<lparr>iomem := iomem (erase_loop c priv i s), trace := trace (erase_loop c priv i s)\<rparr>"
proof (induction c priv i s rule: erase_loop.induct)
  case (1 c priv i s)
  show ?case
  proof (cases "i < 0x100")
    case False
    then show ?thesis by (simp add: erase_loop.simps [of c priv i s])
  next
    case True
    have step: "erase_loop c priv i s =
                erase_loop c priv (i + 4) (writel c 0 (ocram_regs priv + word_of_int i) s)"
      using True by (subst erase_loop.simps) simp
    show ?thesis
      unfolding step by (subst "1.IH" [OF True]) (simp add: writel_def emit_def)
  qed
qed

lemma trace_erase_loop:
  "0 \<le> i \<Longrightarrow> i \<le> 0x100 \<Longrightarrow> i mod 4 = 0 \<Longrightarrow>
   trace (erase_loop c priv i s) =
     trace s @ map (\<lambda>k. (c, Writel 0 (ocram_regs priv + 4 * of_nat k))) [nat (i div 4)..<64]"
proof (induction c priv i s rule: erase_loop.induct)
  case (1 c priv i s)
  show ?case
  proof (cases "i < 0x100")
    case False
    with "1.prems" have "i = 0x100" by simp
    then show ?thesis by (simp add: erase_loop.simps [of c priv 256 s])
  next
    case True
    with "1.prems" have le: "i + 4 \<le> 0x100" by presburger
    have m4: "(i + 4) mod 4 = 0" using "1.prems" by presburger
    have step: "erase_loop c priv i s =
                erase_loop c priv (i + 4) (writel c 0 (ocram_regs priv + word_of_int i) s)"
      using True by (subst erase_loop.simps) simp
    have d: "nat ((i + 4) div 4) = Suc (nat (i div 4))" using "1.prems" by simp
    have lt: "nat (i div 4) < 64" using True "1.prems" by simp
    have "i = 4 * (i div 4)" using "1.prems" by presburger
    then have "i = 4 * int (nat (i div 4))" using "1.prems" by simp
    then have w: "(word_of_int i :: u32) = 4 * of_nat (nat (i div 4))"
      by (metis of_int_of_nat_eq of_int_mult of_int_numeral)
    show ?thesis
      unfolding step
      using "1.IH" [OF True _ le m4] "1.prems"
      by (simp add: d upt_conv_Cons [OF lt] writel_def emit_def w)
  qed
qed

lemma preload_loop_three:
  "preload_loop c priv [x, y, z] 0 s =
     writel c z (ocram_regs priv + 8) (writel c y (ocram_regs priv + 4) (writel c x (ocram_regs priv) s))"
  by (simp add: preload_loop.simps)

lemma work_on_cpu_setup:
  "work_on_cpu c t (firq_setup_fiq_regs_cpu priv) s =
     (0, s\<lparr>fiq_bank := (fiq_bank s)(t := (fiq_bank s t)\<lparr>ARM_sp := ocram_regs priv\<rparr>),
           trace := trace s @ [(c, WorkOnCpu t), (t, GetFiqRegs), (t, SetFiqRegs), (c, WorkDone t)]\<rparr>)"
  by (simp add: work_on_cpu_def firq_setup_fiq_regs_cpu_def get_fiq_regs_def set_fiq_regs_def
      emit_def)

lemma dispatch_loop_frame:
  "dispatch_loop c priv ts s =
     s\<lparr>fiq_bank := fiq_bank (dispatch_loop c priv ts s),
       trace := trace (dispatch_loop c priv ts s)\<rparr>"
proof (induction ts arbitrary: s)
  case Nil
  then show ?case by simp
next
  case (Cons t ts)
  show ?case
    by (simp only: dispatch_loop.simps work_on_cpu_setup snd_conv) (subst Cons.IH, simp)
qed

lemma trace_dispatch_loop:
  "trace (dispatch_loop c priv ts s) =
     trace s @ concat (map (\<lambda>t. [(c, WorkOnCpu t), (t, GetFiqRegs), (t, SetFiqRegs), (c, WorkDone t)]) ts)"
  by (induction ts arbitrary: s) (simp_all add: work_on_cpu_setup)

lemma fiq_bank_dispatch_loop:
  "fiq_bank (dispatch_loop c priv ts s) t =
     (if t \<in> set ts then (fiq_bank s t)\<lparr>ARM_sp := ocram_regs priv\<rparr> else fiq_bank s t)"
  by (induction ts arbitrary: s) (auto simp add: work_on_cpu_setup)

lemma erase_loop_fields:
  "firq_singleton (erase_loop c priv i s) = firq_singleton s"
  "fh_claimed (erase_loop c priv i s) = fh_claimed s"
  "fiq_bank (erase_loop c priv i s) = fiq_bank s"
  "fiq_masked (erase_loop c priv i s) = fiq_masked s"
  "fiq_enabled (erase_loop c priv i s) = fiq_enabled s"
  "fiq_handler (erase_loop c priv i s) = fiq_handler s"
  "drvdata (erase_loop c priv i s) = drvdata s"
  by (subst erase_loop_frame, simp)+

lemma dispatch_loop_fields:
  "firq_singleton (dispatch_loop c priv ts s) = firq_singleton s"
  "fh_claimed (dispatch_loop c priv ts s) = fh_claimed s"
  "iomem (dispatch_loop c priv ts s) = iomem s"
  "fiq_masked (dispatch_loop c priv ts s) = fiq_masked s"
  "fiq_enabled (dispatch_loop c priv ts s) = fiq_enabled s"
  "fiq_handler (dispatch_loop c priv ts s) = fiq_handler s"
  "drvdata (dispatch_loop c priv ts s) = drvdata s"
  by (subst dispatch_loop_frame, simp)+

lemma firq_setup_fiq_regs_fields:
  "firq_singleton (firq_setup_fiq_regs c h priv s) = firq_singleton s"
  "fh_claimed (firq_setup_fiq_regs c h priv s) = fh_claimed s"
  "fiq_masked (firq_setup_fiq_regs c h priv s) = fiq_masked s"
  "fiq_enabled (firq_setup_fiq_regs c h priv s) = fiq_enabled s"
  "fiq_handler (firq_setup_fiq_regs c h priv s) = fiq_handler s"
  "drvdata (firq_setup_fiq_regs c h priv s) = drvdata s"
  unfolding firq_setup_fiq_regs_def Let_def preload_loop_three
  by (simp_all add: dispatch_loop_fields erase_loop_fields writel_def emit_def)

lemma trace_firq_setup_fiq_regs:
  "trace (firq_setup_fiq_regs c h priv s) =
     trace s @
     map (\<lambda>k. (c, Writel 0 (ocram_regs priv + 4 * of_nat k))) [0..<64] @
     [(c, Writel (gic_cpu_regs priv) (ocram_regs priv)),
      (c, Writel (irq priv) (ocram_regs priv + 4)),
      (c, Writel (epit2_regs priv) (ocram_regs priv + 8)),
      (c, Dmb)] @
     concat (map (\<lambda>t. [(c, WorkOnCpu t), (t, GetFiqRegs), (t, SetFiqRegs), (c, WorkDone t)])
               (for_each_possible_cpu h))"
  unfolding firq_setup_fiq_regs_def Let_def preload_loop_three
  by (simp add: trace_dispatch_loop emit_def writel_def trace_erase_loop [of 0, simplified])

lemma iomem_firq_setup_fiq_regs:
  "iomem (firq_setup_fiq_regs c h priv s) =
     store32 (store32 (store32 (iomem (erase_loop c priv 0 s))
       (ocram_regs priv) (gic_cpu_regs priv))
       (ocram_regs priv + 4) (irq priv))
       (ocram_regs priv + 8) (epit2_regs priv)"
  unfolding firq_setup_fiq_regs_def Let_def preload_loop_three
  by (simp add: dispatch_loop_fields writel_def emit_def)

lemma fiq_bank_firq_setup_fiq_regs:
  "fiq_bank (firq_setup_fiq_regs c h priv s) t =
     (if t \<in> set (for_each_possible_cpu h)
      then (fiq_bank s t)\<lparr>ARM_sp := ocram_regs priv\<rparr> else fiq_bank s t)"
  unfolding firq_setup_fiq_regs_def Let_def preload_loop_three
  by (simp add: fiq_bank_dispatch_loop erase_loop_fields writel_def emit_def)

lemma unat_plus_small:
  fixes d :: u32
  assumes "unat d \<le> 4294967292"
  shows "unat (d + 1) = unat d + 1" "unat (d + 2) = unat d + 2" "unat (d + 3) = unat d + 3"
  using assms by (simp_all add: unat_word_ariths)

lemma word_window_neq:
  fixes d :: u32
  assumes "4 \<le> unat d" and "unat d \<le> 4294967292"
  shows "d \<noteq> 0" "d \<noteq> 1" "d \<noteq> 2" "d \<noteq> 3"
    "d + 1 \<noteq> 0" "d + 1 \<noteq> 1" "d + 1 \<noteq> 2" "d + 1 \<noteq> 3"
    "d + 2 \<noteq> 0" "d + 2 \<noteq> 1" "d + 2 \<noteq> 2" "d + 2 \<noteq> 3"
    "d + 3 \<noteq> 0" "d + 3 \<noteq> 1" "d + 3 \<noteq> 2" "d + 3 \<noteq> 3"
  using assms unat_plus_small [of d] by (simp_all add: word_unat_eq_iff)


lemma load32_store32_other:
  assumes "4 \<le> unat (a - b)" and "unat (a - b) \<le> 2 ^ 32 - 4"
  shows "load32 (store32 m b v) a = load32 m a"
proof -
  define d where "d = a - b"
  have a: "a = b + d" by (simp add: d_def)
  have r: "4 \<le> unat d" "unat d \<le> 4294967292" using assms by (simp_all add: d_def)
  note ne = word_window_neq [OF r]
  have eq: "(b + d + j = b + k) = (d + j = k)" "(b + d = b + k) = (d = k)"
    "(b + d + j = b) = (d + j = 0)" for j k
    by (simp_all add: add.assoc)
  have s: "store32 m b v (b + d) = m (b + d)" "store32 m b v (b + d + 1) = m (b + d + 1)"
    "store32 m b v (b + d + 2) = m (b + d + 2)" "store32 m b v (b + d + 3) = m (b + d + 3)"
    unfolding store32_def fun_upd_apply eq using ne by simp_all
  show ?thesis
    unfolding load32_def a s ..
qed

lemma unat_of_nat_u32: "n < 2 ^ 32 \<Longrightarrow> unat (of_nat n :: u32) = n"
  by (simp add: unat_of_nat)

lemma erased_byte:
  "n < 256 \<Longrightarrow> iomem (erase_loop c priv 0 s) (ocram_regs priv + of_nat n) = 0"
  using iomem_erase_loop [of 0 c priv s "ocram_regs priv + of_nat n"]
  by (simp add: unat_of_nat_u32)

lemma load32_erased:
  assumes "n + 3 < 256"
  shows "load32 (iomem (erase_loop c priv 0 s)) (ocram_regs priv + of_nat n) = 0"
proof -
  have b: "iomem (erase_loop c priv 0 s) (ocram_regs priv + of_nat n + of_nat j) = 0"
    if "j < 4" for j
    using erased_byte [of "n + j" c priv s] that assms by (simp add: add.assoc)
  from b [of 0] b [of 1] b [of 2] b [of 3] show ?thesis
    by (simp add: load32_def)
qed

lemma load32_store32_off:
  assumes "m + 4 \<le> n" and "n < 256"
  shows "load32 (store32 M (base + of_nat m) v) (base + of_nat n) = load32 M (base + of_nat n)"
proof -
  have "(base + of_nat n) - (base + of_nat m) = (of_nat n :: u32) - of_nat m"
    by simp
  moreover have "unat ((of_nat n :: u32) - of_nat m) = n - m"
    using assms by (simp add: unat_sub_if' unat_of_nat_u32)
  ultimately show ?thesis
    using assms by (intro load32_store32_other) simp_all
qed

lemma load32_store32_off_rev:
  assumes "n + 4 \<le> m" and "m < 256"
  shows "load32 (store32 M (base + of_nat m) v) (base + of_nat n) = load32 M (base + of_nat n)"
proof -
  have "(base + of_nat n) - (base + of_nat m) = (of_nat n :: u32) - of_nat m"
    by simp
  moreover have "unat ((of_nat n :: u32) - of_nat m) = n + 2 ^ 32 - m"
    using assms by (simp add: unat_sub_if' unat_of_nat_u32)
  ultimately show ?thesis
    using assms by (intro load32_store32_other) simp_all
qed

lemma readl_firq_setup_fiq_regs:
  assumes "k < 64"
  shows "readl (firq_setup_fiq_regs c h priv s) (ocram_regs priv + 4 * of_nat k) =
           (if k = 0 then gic_cpu_regs priv else if k = 1 then irq priv
            else if k = 2 then epit2_regs priv else 0)"
proof -
  let ?b = "ocram_regs priv"
  let ?E = "iomem (erase_loop c priv 0 s)"
  let ?M1 = "store32 ?E (?b + of_nat 0) (gic_cpu_regs priv)"
  let ?M2 = "store32 ?M1 (?b + of_nat 4) (irq priv)"
  let ?M3 = "store32 ?M2 (?b + of_nat 8) (epit2_regs priv)"
  have m: "iomem (firq_setup_fiq_regs c h priv s) = ?M3"
    by (simp add: iomem_firq_setup_fiq_regs)
  have a: "?b + 4 * of_nat k = ?b + of_nat (4 * k)" by simp
  consider "k = 0" | "k = 1" | "k = 2" | "3 \<le> k" by linarith
  then show ?thesis
  proof cases
    case 1
    have "load32 ?M3 (?b + of_nat 0) = load32 ?M2 (?b + of_nat 0)"
      by (rule load32_store32_off_rev) simp_all
    also have "\<dots> = load32 ?M1 (?b + of_nat 0)"
      by (rule load32_store32_off_rev) simp_all
    also have "\<dots> = gic_cpu_regs priv" by (rule load32_store32_same)
    finally show ?thesis using 1 unfolding readl_def m by simp
  next
    case 2
    have "load32 ?M3 (?b + of_nat 4) = load32 ?M2 (?b + of_nat 4)"
      by (rule load32_store32_off_rev) simp_all
    also have "\<dots> = irq priv" by (rule load32_store32_same)
    finally show ?thesis using 2 unfolding readl_def m by simp
  next
    case 3
    have "load32 ?M3 (?b + of_nat 8) = epit2_regs priv" by (rule load32_store32_same)
    then show ?thesis using 3 unfolding readl_def m by simp
  next
    case 4
    have "load32 ?M3 (?b + of_nat (4 * k)) = load32 ?M2 (?b + of_nat (4 * k))"
      using 4 assms by (intro load32_store32_off) simp_all
    also have "\<dots> = load32 ?M1 (?b + of_nat (4 * k))"
      using 4 assms by (intro load32_store32_off) simp_all
    also have "\<dots> = load32 ?E (?b + of_nat (4 * k))"
      using 4 assms by (intro load32_store32_off) simp_all
    also have "\<dots> = 0"
      using 4 assms by (intro load32_erased) simp
    finally show ?thesis using 4 unfolding readl_def m a by simp
  qed
qed

section \<open>\<open>firq_probe\<close> and \<open>firq_remove\<close>\<close>

lemma firq_probe_busy: "firq_singleton s \<Longrightarrow> firq_probe c h s = (- EBUSY, s)"
  by (simp add: firq_probe_def)

lemma firq_probe_ok_iff:
  "fst (firq_probe c h s) = 0 \<longleftrightarrow>
     \<not> firq_singleton s \<and> resources_valid h \<and> claim_fiq_ret h = 0"
  by (auto simp add: firq_probe_def resources_valid_def Let_def claim_fiq_def
      EBUSY_def ENOMEM_def EINVAL_def ENODEV_def)

lemma firq_probe_error_codes:
  "fst (firq_probe c h s) \<in> {0, - EBUSY, - ENOMEM, - EINVAL, - ENODEV}"
  by (auto simp add: firq_probe_def Let_def claim_fiq_def)

lemma firq_probe_error_frame:
  "fst (firq_probe c h s) \<noteq> 0 \<Longrightarrow>
   snd (firq_probe c h s) = s\<lparr>trace := trace (snd (firq_probe c h s))\<rparr>"
  by (auto simp add: firq_probe_def Let_def claim_fiq_def emit_def)

lemma control_word: "(push_bit 0 1 OR push_bit 1 1 OR push_bit 2 1 OR push_bit 3 1 OR
                             push_bit 19 1 OR push_bit 24 0x2 :: u32) = 0x0208000F"
  by simp

lemma firq_probe_success:
  assumes "\<not> firq_singleton s" and "resources_valid h" and "claim_fiq_ret h = 0"
  shows "fst (firq_probe c h s) = 0"
    and "firq_singleton (snd (firq_probe c h s))"
    and "fh_claimed (snd (firq_probe c h s))"
    and "drvdata (snd (firq_probe c h s)) = Some (probe_priv h)"
    and "fiq_handler (snd (firq_probe c h s)) =
           Some (firq_fiq_handler h, firq_fiq_handler_end h - firq_fiq_handler h)"
    and "fiq_enabled (snd (firq_probe c h s)) = (fiq_enabled s)(platform_irq h := True)"
    and "fiq_masked (snd (firq_probe c h s)) = fiq_masked s"
  using assms
  by (simp_all add: firq_probe_def resources_valid_def probe_priv_def Let_def claim_fiq_def
      emit_def writel_def set_fiq_handler_def platform_set_drvdata_def enable_fiq_def
      firq_setup_fiq_regs_fields)

lemma trace_firq_probe_success:
  assumes "\<not> firq_singleton s" and "resources_valid h" and "claim_fiq_ret h = 0"
  shows "trace (snd (firq_probe c h s)) =
     trace s @
     [(c, DevmKzalloc), (c, PlatformGetIrq),
      (c, DevmIoremap 0x00a00100 0x100), (c, DevmIoremap 0x00940000 0x1000),
      (c, DevmIoremap 0x020d4000 0x4000),
      (c, DevErr ''gic ocram epit irq''), (c, ClaimFiq),
      (c, DevInfo ''FIQ handler: start size''),
      (c, PrintHexDump (firq_fiq_handler h) (firq_fiq_handler_end h - firq_fiq_handler h)),
      (c, DevInfo ''registering FIQ handler''),
      (c, SetFiqHandler (firq_fiq_handler h) (firq_fiq_handler_end h - firq_fiq_handler h))] @
     map (\<lambda>k. (c, Writel 0 (ioremap h 0x00940000 + 4 * of_nat k))) [0..<64] @
     [(c, Writel (ioremap h 0x00a00100) (ioremap h 0x00940000)),
      (c, Writel (platform_irq h) (ioremap h 0x00940000 + 4)),
      (c, Writel (ioremap h 0x020d4000) (ioremap h 0x00940000 + 8)),
      (c, Dmb)] @
     concat (map (\<lambda>t. [(c, WorkOnCpu t), (t, GetFiqRegs), (t, SetFiqRegs), (c, WorkDone t)])
               (for_each_possible_cpu h)) @
     [(c, DevInfo ''FIQ handler registered''), (c, PlatformSetDrvdata),
      (c, DevInfo ''Enabling FIQ''), (c, EnableFiq (platform_irq h)),
      (c, DevInfo ''FIQ enabled''), (c, SetSingleton True),
      (c, Writel 0 (ioremap h 0x020d4000)),
      (c, Writel 0xffff (ioremap h 0x020d4000 + 8)),
      (c, Writel 1 (ioremap h 0x020d4000 + 4)),
      (c, Writel 0x0208000F (ioremap h 0x020d4000)),
      (c, Writel 0xffff (ioremap h 0x020d4000 + 8)),
      (c, Writel 1 (ioremap h 0x020d4000 + 4))]"
  using assms
  by (simp add: firq_probe_def resources_valid_def Let_def claim_fiq_def
      emit_def writel_def set_fiq_handler_def platform_set_drvdata_def enable_fiq_def
      trace_firq_setup_fiq_regs)

lemma writes_of_append: "writes_of (xs @ ys) = writes_of xs @ writes_of ys"
  by (induction xs rule: writes_of.induct) simp_all

lemma writes_of_map_Writel:
  "writes_of (map (\<lambda>k. (c, Writel (f k) (g k))) ks) = map (\<lambda>k. (f k, g k)) ks"
  by (induction ks) simp_all

lemma writes_of_dispatch:
  "writes_of (concat (map (\<lambda>t. [(c, WorkOnCpu t), (t, GetFiqRegs), (t, SetFiqRegs),
     (c, WorkDone t)]) ts)) = []"
  by (induction ts) simp_all

lemma new_events_append: "trace s' = trace s @ es \<Longrightarrow> new_events s s' = es"
  by (simp add: new_events_def)

lemma load32_store32_above:
  "load32 (store32 m (a + 4) v) a = load32 m a" "load32 (store32 m (a + 8) v) a = load32 m a"
  by (rule load32_store32_other; simp)+

lemma load32_store32_below:
  "load32 (store32 m a v) (a + 8) = load32 m (a + 8)"
  by (rule load32_store32_other; simp)

lemma readl_cr_firq_probe:
  assumes "\<not> firq_singleton s" and "resources_valid h" and "claim_fiq_ret h = 0"
  shows "readl (snd (firq_probe c h s)) (ioremap h 0x020d4000) = 0x0208000F"
  using assms
  by (simp add: firq_probe_def resources_valid_def Let_def claim_fiq_def readl_def
      emit_def writel_def load32_store32_above load32_store32_same)

lemma firq_remove_cpu0_eq:
  "firq_remove_cpu0 priv t s =
     (0, s\<lparr>firq_singleton := False, fh_claimed := False,
           iomem := store32 (iomem s) (epit2_regs priv) 0,
           fiq_masked := (fiq_masked s)(t := False),
           fiq_enabled := (fiq_enabled s)(irq priv := False),
           trace := trace s @
             [(t, LocalFiqDisable), (t, Writel 0 (epit2_regs priv)), (t, DisableFiq (irq priv)),
              (t, LocalFiqEnable), (t, ReleaseFiq), (t, SetSingleton False)]\<rparr>)"
  by (simp add: firq_remove_cpu0_def Let_def local_fiq_disable_def local_fiq_enable_def
      writel_def disable_fiq_def release_fiq_def emit_def)

lemma firq_remove_eq:
  "drvdata s = Some priv \<Longrightarrow>
   firq_remove c s =
     Some (0, s\<lparr>firq_singleton := False, fh_claimed := False,
           iomem := store32 (iomem s) (epit2_regs priv) 0,
           fiq_masked := (fiq_masked s)(0 := False),
           fiq_enabled := (fiq_enabled s)(irq priv := False),
           trace := trace s @
             [(c, DevInfo ''Removing module''), (c, WorkOnCpu 0),
              (0, LocalFiqDisable), (0, Writel 0 (epit2_regs priv)), (0, DisableFiq (irq priv)),
              (0, LocalFiqEnable), (0, ReleaseFiq), (0, SetSingleton False),
              (c, WorkDone 0)]\<rparr>)"
  by (simp add: firq_remove_def work_on_cpu_def firq_remove_cpu0_eq emit_def)

lemma host0_valid: "resources_valid host0" "claim_fiq_ret host0 = 0" "\<not> firq_singleton s0"
  by (simp_all add: resources_valid_def host0_def s0_def)

lemma host_empty_handler_valid:
  "resources_valid host_empty_handler" "claim_fiq_ret host_empty_handler = 0"
  by (simp_all add: resources_valid_def host_empty_handler_def host0_def)

lemma s_running_facts:
  "firq_probe 0 host0 s0 = (0, s_running)"
  "firq_singleton s_running" "fh_claimed s_running"
  "drvdata s_running = Some (probe_priv host0)"
  using firq_probe_success [OF host0_valid(3) host0_valid(1) host0_valid(2), of 0]
  by (simp_all add: s_running_def prod_eq_iff)

lemma probe_priv_host0:
  "probe_priv host0 =
     \<lparr>gic_cpu_regs = 0xf0a00100, ocram_regs = 0xf0940000, epit2_regs = 0xf20d4000, irq = 89\<rparr>"
  by (simp add: probe_priv_def host0_def)

lemma claim_attempted_iff:
  "(c, ClaimFiq) \<in> set (new_events s (snd (firq_probe c h s))) \<longleftrightarrow>
     \<not> firq_singleton s \<and> resources_valid h"
proof (cases "\<not> firq_singleton s \<and> resources_valid h \<and> claim_fiq_ret h = 0")
  case True
  then show ?thesis
    by (simp add: new_events_append [OF trace_firq_probe_success])
next
  case False
  then show ?thesis
    by (auto simp add: firq_probe_def resources_valid_def Let_def claim_fiq_def emit_def
        new_events_def)
qed

lemma writes_firq_probe:
  assumes "\<not> firq_singleton s" and "resources_valid h" and "claim_fiq_ret h = 0"
  shows "writes_of (new_events s (snd (firq_probe c h s))) =
     map (\<lambda>k. (0, ioremap h 0x00940000 + 4 * of_nat k)) [0..<64] @
     [(ioremap h 0x00a00100, ioremap h 0x00940000),
      (platform_irq h, ioremap h 0x00940000 + 4),
      (ioremap h 0x020d4000, ioremap h 0x00940000 + 8)] @
     [(0, ioremap h 0x020d4000), (0xffff, ioremap h 0x020d4000 + 8),
      (1, ioremap h 0x020d4000 + 4), (0x0208000F, ioremap h 0x020d4000),
      (0xffff, ioremap h 0x020d4000 + 8), (1, ioremap h 0x020d4000 + 4)]"
  unfolding new_events_append [OF trace_firq_probe_success [OF assms]]
  by (simp add: writes_of_append writes_of_dispatch
      writes_of_map_Writel [of _ "\<lambda>k. 0" "\<lambda>k. ioremap h 0x00940000 + 4 * of_nat k"])

lemma host_vector_busy_facts:
  "resources_valid host_vector_busy" "claim_fiq_ret host_vector_busy = - 16"
  by (simp_all add: resources_valid_def host_vector_busy_def host0_def)

lemma read_block_cong: "iomem s = iomem s' \<Longrightarrow> read_block s base = read_block s' base"
  by (simp add: read_block_def readl_def)

lemma iomem_preload_erase:
  "iomem (preload_loop c priv [gic_cpu_regs priv, irq priv, epit2_regs priv] 0
            (erase_loop c priv 0 s)) = iomem (firq_setup_fiq_regs c h priv s)"
  by (simp add: iomem_firq_setup_fiq_regs preload_loop_three iomem_writel)

lemma read_block_firq_setup_fiq_regs:
  "read_block (firq_setup_fiq_regs c h priv s) (ocram_regs priv) =
     gic_cpu_regs priv # irq priv # epit2_regs priv # replicate 61 0"
  unfolding read_block_def
proof (rule nth_equalityI)
  show "length (map (\<lambda>k. readl (firq_setup_fiq_regs c h priv s) (ocram_regs priv + 4 * of_nat k))
           [0..<64]) =
        length (gic_cpu_regs priv # irq priv # epit2_regs priv # replicate 61 0)"
    by simp
next
  fix i
  assume "i < length (map (\<lambda>k. readl (firq_setup_fiq_regs c h priv s)
           (ocram_regs priv + 4 * of_nat k)) [0..<64])"
  then have i: "i < 64" by simp
  consider "i = 0" | "i = 1" | "i = 2" | "3 \<le> i" by linarith
  then show "map (\<lambda>k. readl (firq_setup_fiq_regs c h priv s) (ocram_regs priv + 4 * of_nat k))
           [0..<64] ! i =
        (gic_cpu_regs priv # irq priv # epit2_regs priv # replicate 61 0) ! i"
  proof cases
    case 4
    define j where "j = i - 3"
    have j: "i = 3 + j" "j < 61" using 4 i by (simp_all add: j_def)
    show ?thesis using i 4 j readl_firq_setup_fiq_regs [OF i, of c h priv s]
      by (simp add: nth_Cons')
  qed (use readl_firq_setup_fiq_regs [of i c h priv s] in simp_all)
qed

section \<open>The properties\<close>

subsection \<open>C1: start followed by stop\<close>

text \<open>
  Claim C1. Whenever \<open>firq_probe\<close> has returned 0, a following \<open>firq_remove\<close>, called
  on any core, returns 0 and leaves the system idle: \<open>firq_singleton\<close> is false and the
  FIQ vector is released. Its actions are, in this order and on core 0: mask FIQs
  locally, write 0 to the timer's control register, disable the interrupt line, unmask
  FIQs locally, release the vector, clear \<open>firq_singleton\<close>.
\<close>

theorem start_stop_round_trip:
  assumes "firq_probe c h s = (0, s1)"
  shows "\<exists>s2. firq_remove c' s1 = Some (0, s2) \<and>
           \<not> firq_singleton s2 \<and> \<not> fh_claimed s2 \<and>
           new_events s1 s2 =
             [(c', DevInfo ''Removing module''), (c', WorkOnCpu 0),
              (0, LocalFiqDisable), (0, Writel 0 (ioremap h 0x020d4000)),
              (0, DisableFiq (platform_irq h)), (0, LocalFiqEnable),
              (0, ReleaseFiq), (0, SetSingleton False), (c', WorkDone 0)]"
proof -
  from assms have ok: "fst (firq_probe c h s) = 0" and s1: "s1 = snd (firq_probe c h s)"
    by simp_all
  from ok have pre: "\<not> firq_singleton s" "resources_valid h" "claim_fiq_ret h = 0"
    by (simp_all add: firq_probe_ok_iff)
  have "drvdata s1 = Some (probe_priv h)"
    unfolding s1 by (rule firq_probe_success(4) [OF pre])
  from firq_remove_eq [OF this, of c'] show ?thesis
    by (simp add: new_events_def probe_priv_def)
qed

text \<open>
  Claim C1 on the concrete platform: the probe on core 0 succeeds and the removal is
  requested on core 1.
\<close>

theorem start_stop_round_trip_witness:
  "firq_probe 0 host0 s0 = (0, s_running) \<and>
   (\<exists>s2. firq_remove 1 s_running = Some (0, s2) \<and>
           \<not> firq_singleton s2 \<and> \<not> fh_claimed s2 \<and>
           new_events s_running s2 =
             [(1, DevInfo ''Removing module''), (1, WorkOnCpu 0),
              (0, LocalFiqDisable), (0, Writel 0 0xf20d4000),
              (0, DisableFiq 89), (0, LocalFiqEnable),
              (0, ReleaseFiq), (0, SetSingleton False), (1, WorkDone 0)])"
  using start_stop_round_trip [OF s_running_facts(1), of 1] s_running_facts(1)
  by (simp add: host0_def)

subsection \<open>C2: the shared region after provisioning\<close>

text \<open>
  Claim C2. For every \<open>firq_priv\<close>, whatever its address values (0 included), the 64
  words of the 256-byte block at \<open>ocram_regs\<close> read back, after the erase and preload
  loops and likewise at the end of \<open>firq_setup_fiq_regs\<close>, as: the GIC CPU-interface
  base at offset 0, the interrupt number at offset 4, the timer base at offset 8, and
  zero in the 61 words that follow.
\<close>

theorem provision_readback:
  "read_block (preload_loop c priv [gic_cpu_regs priv, irq priv, epit2_regs priv] 0
                 (erase_loop c priv 0 s)) (ocram_regs priv) =
     gic_cpu_regs priv # irq priv # epit2_regs priv # replicate 61 0 \<and>
   read_block (firq_setup_fiq_regs c h priv s) (ocram_regs priv) =
     gic_cpu_regs priv # irq priv # epit2_regs priv # replicate 61 0"
  using read_block_cong [OF iomem_preload_erase [of c priv s h], of "ocram_regs priv"]
  by (simp add: read_block_firq_setup_fiq_regs)

subsection \<open>C3: a second start is rejected\<close>

text \<open>
  Claim C3. When \<open>firq_singleton\<close> is set, \<open>firq_probe\<close> returns \<open>-EBUSY\<close> and the
  state at the return is the state at the call: nothing is allocated, no register is
  written, the vector is not claimed, and no action is recorded.
\<close>

theorem second_start_rejected:
  assumes "firq_singleton s"
  shows "firq_probe c h s = (- EBUSY, s) \<and> new_events s (snd (firq_probe c h s)) = []"
  using assms by (simp add: firq_probe_def new_events_def)

text \<open>
  Claim C3 on the running system reached by a successful probe.
\<close>

theorem second_start_rejected_witness:
  "firq_singleton s_running \<and> firq_probe 0 host0 s_running = (- 16, s_running) \<and>
   new_events s_running (snd (firq_probe 0 host0 s_running)) = []"
  using second_start_rejected [OF s_running_facts(2), of 0 host0] s_running_facts(2)
  by (simp add: EBUSY_def new_events_def)

subsection \<open>C4: stop requested on another core\<close>

text \<open>
  Claim C4 fails on the code. The system is running after a probe on core 0; the
  removal requested on core 1 returns 0, not a fault, and it is carried out: the flag
  is cleared and the vector released.
\<close>

theorem stop_from_other_core_counterexample:
  "firq_singleton s_running \<and>
   map_option fst (firq_remove 1 s_running) = Some 0 \<and>
   map_option (firq_singleton \<circ> snd) (firq_remove 1 s_running) = Some False \<and>
   map_option (fh_claimed \<circ> snd) (firq_remove 1 s_running) = Some False"
  using s_running_facts(2) firq_remove_eq [OF s_running_facts(4), of 1]
  by simp

text \<open>
  Claim C4 as amended. A removal requested on any core \<open>c\<close> is not rejected:
  \<open>firq_remove\<close> hands the teardown to core 0 through \<open>work_on_cpu\<close>, every action of
  the teardown runs on core 0, the call returns 0, and the flag is clear and the vector
  released afterwards.
\<close>

theorem stop_runs_on_cpu0:
  assumes "drvdata s = Some priv"
  shows "\<exists>s2. firq_remove c s = Some (0, s2) \<and>
           \<not> firq_singleton s2 \<and> \<not> fh_claimed s2 \<and>
           new_events s s2 =
             [(c, DevInfo ''Removing module''), (c, WorkOnCpu 0),
              (0, LocalFiqDisable), (0, Writel 0 (epit2_regs priv)),
              (0, DisableFiq (irq priv)), (0, LocalFiqEnable),
              (0, ReleaseFiq), (0, SetSingleton False), (c, WorkDone 0)]"
  using firq_remove_eq [OF assms, of c] by (simp add: new_events_def)

text \<open>
  Claim C4 as amended, on the running system with the removal requested on core 3.
\<close>

theorem stop_runs_on_cpu0_witness:
  "drvdata s_running = Some (probe_priv host0) \<and>
   (\<exists>s2. firq_remove 3 s_running = Some (0, s2) \<and>
           \<not> firq_singleton s2 \<and> \<not> fh_claimed s2 \<and>
           new_events s_running s2 =
             [(3, DevInfo ''Removing module''), (3, WorkOnCpu 0),
              (0, LocalFiqDisable), (0, Writel 0 0xf20d4000),
              (0, DisableFiq 89), (0, LocalFiqEnable),
              (0, ReleaseFiq), (0, SetSingleton False), (3, WorkDone 0)])"
  using stop_runs_on_cpu0 [OF s_running_facts(4), of 3] s_running_facts(4)
  by (simp add: probe_priv_host0)

subsection \<open>C5: stopping the timer\<close>

text \<open>
  Claim C5 fails on the code. After the probe the control register holds
  \<open>0x0208000F\<close>; after \<open>firq_remove_cpu0\<close> it holds 0, which is not the old value with
  only the enable bit cleared.
\<close>

theorem timer_stop_counterexample:
  "readl s_running 0xf20d4000 = 0x0208000F \<and>
   readl (snd (firq_remove_cpu0 (probe_priv host0) 0 s_running)) 0xf20d4000 = 0 \<and>
   readl (snd (firq_remove_cpu0 (probe_priv host0) 0 s_running)) 0xf20d4000 \<noteq>
     readl s_running 0xf20d4000 AND NOT 1"
proof -
  have a: "readl s_running 0xf20d4000 = 0x0208000F"
    using readl_cr_firq_probe [OF host0_valid(3) host0_valid(1) host0_valid(2), of 0]
    by (simp add: s_running_def host0_def)
  have b: "readl (snd (firq_remove_cpu0 (probe_priv host0) 0 s_running)) 0xf20d4000 = 0"
    by (simp add: firq_remove_cpu0_eq probe_priv_host0 readl_def load32_store32_same)
  show ?thesis unfolding a b by simp
qed

text \<open>
  Claim C5 as amended. \<open>firq_remove_cpu0\<close> writes 0 to the whole control register of
  the timer, so the enable bit is cleared together with every other control bit; this is
  its only register write, and the load register keeps its value.
\<close>

theorem timer_stop_clears_control_register:
  "readl (snd (firq_remove_cpu0 priv c s)) (epit2_regs priv + 0x0) = 0 \<and>
   readl (snd (firq_remove_cpu0 priv c s)) (epit2_regs priv + 0x8) = readl s (epit2_regs priv + 0x8) \<and>
   writes_of (new_events s (snd (firq_remove_cpu0 priv c s))) = [(0, epit2_regs priv + 0x0)]"
  by (simp add: firq_remove_cpu0_eq readl_def load32_store32_same load32_store32_below
      new_events_def)

subsection \<open>C6: a handler of length zero\<close>

text \<open>
  Claim C6 fails on the code. With the end symbol equal to the start symbol the
  computed length is 0, and \<open>firq_probe\<close> still returns 0, installs the handler with
  length 0 and sets \<open>firq_singleton\<close>.
\<close>

theorem zero_length_handler_counterexample:
  "firq_fiq_handler_end host_empty_handler - firq_fiq_handler host_empty_handler = 0 \<and>
   fst (firq_probe 0 host_empty_handler s0) = 0 \<and>
   fiq_handler (snd (firq_probe 0 host_empty_handler s0)) = Some (0xc0008000, 0) \<and>
   firq_singleton (snd (firq_probe 0 host_empty_handler s0))"
  using firq_probe_success [OF host0_valid(3) host_empty_handler_valid, of 0]
  by (simp add: host_empty_handler_def host0_def)

text \<open>
  Claim C6 as amended. \<open>firq_probe\<close> does not check the handler length: with a length
  of zero, valid resources and a granted claim, it calls \<open>set_fiq_handler\<close> with length
  0, the handler is installed, the call returns 0 and \<open>firq_singleton\<close> is set.
\<close>

theorem zero_length_handler_installed:
  assumes "firq_fiq_handler_end h = firq_fiq_handler h"
    and "\<not> firq_singleton s" and "resources_valid h" and "claim_fiq_ret h = 0"
  shows "fst (firq_probe c h s) = 0 \<and>
         fiq_handler (snd (firq_probe c h s)) = Some (firq_fiq_handler h, 0) \<and>
         (c, SetFiqHandler (firq_fiq_handler h) 0) \<in> set (new_events s (snd (firq_probe c h s))) \<and>
         firq_singleton (snd (firq_probe c h s))"
  using firq_probe_success [OF assms(2-4), of c] assms(1)
  by (simp add: new_events_append [OF trace_firq_probe_success [OF assms(2-4)]])

text \<open>
  Claim C6 as amended, on the concrete platform with an empty handler.
\<close>

theorem zero_length_handler_installed_witness:
  "firq_fiq_handler_end host_empty_handler = firq_fiq_handler host_empty_handler \<and>
   \<not> firq_singleton s0 \<and> resources_valid host_empty_handler \<and>
   claim_fiq_ret host_empty_handler = 0 \<and>
   fst (firq_probe 0 host_empty_handler s0) = 0 \<and>
   fiq_handler (snd (firq_probe 0 host_empty_handler s0)) = Some (0xc0008000, 0) \<and>
   (0, SetFiqHandler 0xc0008000 0) \<in> set (new_events s0 (snd (firq_probe 0 host_empty_handler s0))) \<and>
   firq_singleton (snd (firq_probe 0 host_empty_handler s0))"
proof -
  have e: "firq_fiq_handler_end host_empty_handler = firq_fiq_handler host_empty_handler"
    and f: "firq_fiq_handler host_empty_handler = 0xc0008000"
    by (simp_all add: host_empty_handler_def host0_def)
  show ?thesis
    using zero_length_handler_installed [OF e host0_valid(3) host_empty_handler_valid, of 0]
      e host0_valid(3) host_empty_handler_valid
    by (simp add: f)
qed

subsection \<open>C7: starting the timer\<close>

text \<open>
  Claim C7 fails on the code. The register writes of a successful probe are the 67
  writes to the shared region followed by six writes to the timer, not the five of the
  documented sequence: the load register is written a second time between the control
  word and the last status clear.
\<close>

theorem timer_start_counterexample:
  "writes_of (new_events s0 s_running) =
     map (\<lambda>k. (0, 0xf0940000 + 4 * of_nat k)) [0..<64] @
     [(0xf0a00100, 0xf0940000), (89, 0xf0940004), (0xf20d4000, 0xf0940008)] @
     [(0, 0xf20d4000), (0xffff, 0xf20d4008), (1, 0xf20d4004), (0x0208000F, 0xf20d4000),
      (0xffff, 0xf20d4008), (1, 0xf20d4004)] \<and>
   [(0, 0xf20d4000), (0xffff, 0xf20d4008), (1, 0xf20d4004), (0x0208000F, 0xf20d4000),
      (0xffff, 0xf20d4008), (1, 0xf20d4004)] \<noteq>
     periodic_trigger_start_spec 0xf20d4000 0xffff 0x0208000F"
  using writes_firq_probe [OF host0_valid(3) host0_valid(1) host0_valid(2), of 0]
  by (simp add: s_running_def host0_def periodic_trigger_start_spec_def)

text \<open>
  Claim C7 as amended. After the writes to the shared region, a successful
  \<open>firq_probe\<close> writes to the timer, in this order: 0 to the control register,
  \<open>0xffff\<close> to the load register, 1 to the status register, the control word
  \<open>0x0208000F\<close> (bits 0 to 3: EN, ENMOD, OCIEN, RLD; bit 19: WAITEN; clock source 2 at
  bit 24) to the control register, \<open>0xffff\<close> to the load register again, and 1 to the
  status register. It writes no other register.
\<close>

theorem timer_start_write_sequence:
  assumes "fst (firq_probe c h s) = 0"
  shows "writes_of (new_events s (snd (firq_probe c h s))) =
     map (\<lambda>k. (0, ioremap h 0x00940000 + 4 * of_nat k)) [0..<64] @
     [(ioremap h 0x00a00100, ioremap h 0x00940000),
      (platform_irq h, ioremap h 0x00940000 + 4),
      (ioremap h 0x020d4000, ioremap h 0x00940000 + 8)] @
     [(0, ioremap h 0x020d4000), (0xffff, ioremap h 0x020d4000 + 8),
      (1, ioremap h 0x020d4000 + 4), (0x0208000F, ioremap h 0x020d4000),
      (0xffff, ioremap h 0x020d4000 + 8), (1, ioremap h 0x020d4000 + 4)] \<and>
   (0x0208000F :: u32) =
     push_bit 0 1 OR push_bit 1 1 OR push_bit 2 1 OR push_bit 3 1 OR push_bit 19 1 OR
     push_bit 24 0x2"
proof -
  from assms have pre: "\<not> firq_singleton s" "resources_valid h" "claim_fiq_ret h = 0"
    by (simp_all add: firq_probe_ok_iff)
  show ?thesis
    using writes_firq_probe [OF pre, of c] by simp
qed

text \<open>
  Claim C7 as amended, on the concrete platform.
\<close>

theorem timer_start_write_sequence_witness:
  "fst (firq_probe 0 host0 s0) = 0 \<and>
   writes_of (new_events s0 (snd (firq_probe 0 host0 s0))) =
     map (\<lambda>k. (0, 0xf0940000 + 4 * of_nat k)) [0..<64] @
     [(0xf0a00100, 0xf0940000), (89, 0xf0940004), (0xf20d4000, 0xf0940008)] @
     [(0, 0xf20d4000), (0xffff, 0xf20d4008), (1, 0xf20d4004), (0x0208000F, 0xf20d4000),
      (0xffff, 0xf20d4008), (1, 0xf20d4004)]"
proof -
  have ok: "fst (firq_probe 0 host0 s0) = 0" using s_running_facts(1) by simp
  show ?thesis
    using timer_start_write_sequence [OF ok] ok by (simp add: host0_def)
qed

subsection \<open>C8: the per-core bootstrap\<close>

text \<open>
  Claim C8. On every core \<open>c\<close>, \<open>firq_setup_fiq_regs_cpu\<close> reads the FIQ register bank
  of \<open>c\<close>, replaces the stack pointer by the address of the shared region and writes the
  bank back: r8, r9, r10, fp, ip and lr keep the values read, the banks of the other
  cores are untouched, and the function returns 0.
\<close>

theorem bootstrap_updates_only_sp:
  "fst (firq_setup_fiq_regs_cpu priv c s) = 0 \<and>
   fiq_bank (snd (firq_setup_fiq_regs_cpu priv c s)) =
     (fiq_bank s)(c := (fiq_bank s c)\<lparr>ARM_sp := ocram_regs priv\<rparr>) \<and>
   ARM_sp (fiq_bank (snd (firq_setup_fiq_regs_cpu priv c s)) c) = ocram_regs priv \<and>
   ARM_r8 (fiq_bank (snd (firq_setup_fiq_regs_cpu priv c s)) c) = ARM_r8 (fiq_bank s c) \<and>
   ARM_r9 (fiq_bank (snd (firq_setup_fiq_regs_cpu priv c s)) c) = ARM_r9 (fiq_bank s c) \<and>
   ARM_r10 (fiq_bank (snd (firq_setup_fiq_regs_cpu priv c s)) c) = ARM_r10 (fiq_bank s c) \<and>
   ARM_fp (fiq_bank (snd (firq_setup_fiq_regs_cpu priv c s)) c) = ARM_fp (fiq_bank s c) \<and>
   ARM_ip (fiq_bank (snd (firq_setup_fiq_regs_cpu priv c s)) c) = ARM_ip (fiq_bank s c) \<and>
   ARM_lr (fiq_bank (snd (firq_setup_fiq_regs_cpu priv c s)) c) = ARM_lr (fiq_bank s c) \<and>
   new_events s (snd (firq_setup_fiq_regs_cpu priv c s)) = [(c, GetFiqRegs), (c, SetFiqRegs)]"
  by (simp add: firq_setup_fiq_regs_cpu_def get_fiq_regs_def set_fiq_regs_def emit_def
      new_events_def)

subsection \<open>C9: provisioning precedes the dispatch\<close>

text \<open>
  Claim C9. The actions of \<open>firq_setup_fiq_regs\<close> are, in order: the 64 erasing writes,
  the three field writes, the barrier, and then for each possible core in turn one
  \<open>work_on_cpu\<close> call whose bootstrap runs on that core and is complete before the next
  call starts. Every possible core is visited exactly once.
\<close>

theorem provision_before_dispatch:
  "new_events s (firq_setup_fiq_regs c h priv s) =
     map (\<lambda>k. (c, Writel 0 (ocram_regs priv + 4 * of_nat k))) [0..<64] @
     [(c, Writel (gic_cpu_regs priv) (ocram_regs priv)),
      (c, Writel (irq priv) (ocram_regs priv + 4)),
      (c, Writel (epit2_regs priv) (ocram_regs priv + 8)),
      (c, Dmb)] @
     concat (map (\<lambda>t. [(c, WorkOnCpu t), (t, GetFiqRegs), (t, SetFiqRegs), (c, WorkDone t)])
               (for_each_possible_cpu h)) \<and>
   distinct (for_each_possible_cpu h) \<and>
   set (for_each_possible_cpu h) = {t. t < nr_cpu_ids h \<and> cpu_possible h t}"
proof (intro conjI)
  show "new_events s (firq_setup_fiq_regs c h priv s) =
     map (\<lambda>k. (c, Writel 0 (ocram_regs priv + 4 * of_nat k))) [0..<64] @
     [(c, Writel (gic_cpu_regs priv) (ocram_regs priv)),
      (c, Writel (irq priv) (ocram_regs priv + 4)),
      (c, Writel (epit2_regs priv) (ocram_regs priv + 8)),
      (c, Dmb)] @
     concat (map (\<lambda>t. [(c, WorkOnCpu t), (t, GetFiqRegs), (t, SetFiqRegs), (c, WorkDone t)])
               (for_each_possible_cpu h))"
    by (rule new_events_append [OF trace_firq_setup_fiq_regs])
  show "distinct (for_each_possible_cpu h)"
    by (simp add: for_each_possible_cpu_def)
  show "set (for_each_possible_cpu h) = {t. t < nr_cpu_ids h \<and> cpu_possible h t}"
    by (auto simp add: for_each_possible_cpu_def)
qed

subsection \<open>C10: error returns of the probe\<close>

text \<open>
  Claim C10 fails on the code. Probing the running system returns \<open>-EBUSY\<close>, a nonzero
  code, while \<open>firq_singleton\<close> is set and the vector is held by the driver.
\<close>

theorem probe_error_counterexample:
  "fst (firq_probe 0 host0 s_running) = - 16 \<and>
   firq_singleton (snd (firq_probe 0 host0 s_running)) \<and>
   fh_claimed (snd (firq_probe 0 host0 s_running))"
  using s_running_facts(2,3) by (simp add: firq_probe_busy EBUSY_def)

text \<open>
  Claim C10 as amended. Whenever \<open>firq_probe\<close> returns a nonzero code it has changed
  neither \<open>firq_singleton\<close> nor the ownership of the vector (both are as at the call:
  clear and not held for a call made on an idle system, set and held for the
  \<open>-EBUSY\<close> return); the return either precedes the call of \<open>claim_fiq\<close> or is the
  \<open>-ENODEV\<close> of a failed \<open>claim_fiq\<close>. Once \<open>claim_fiq\<close> has been called and has
  returned 0, \<open>firq_probe\<close> returns 0 with \<open>firq_singleton\<close> set.
\<close>

theorem probe_error_leaves_flag_and_vector:
  "(fst (firq_probe c h s) \<noteq> 0 \<longrightarrow>
      firq_singleton (snd (firq_probe c h s)) = firq_singleton s \<and>
      fh_claimed (snd (firq_probe c h s)) = fh_claimed s \<and>
      ((c, ClaimFiq) \<notin> set (new_events s (snd (firq_probe c h s))) \<or>
       claim_fiq_ret h \<noteq> 0 \<and> fst (firq_probe c h s) = - ENODEV)) \<and>
   ((c, ClaimFiq) \<in> set (new_events s (snd (firq_probe c h s))) \<and> claim_fiq_ret h = 0 \<longrightarrow>
      fst (firq_probe c h s) = 0 \<and> firq_singleton (snd (firq_probe c h s)))"
proof (intro conjI impI)
  assume e: "fst (firq_probe c h s) \<noteq> 0"
  have f: "snd (firq_probe c h s) = s\<lparr>trace := trace (snd (firq_probe c h s))\<rparr>"
    by (rule firq_probe_error_frame [OF e])
  show "firq_singleton (snd (firq_probe c h s)) = firq_singleton s"
    by (subst f) simp
  show "fh_claimed (snd (firq_probe c h s)) = fh_claimed s"
    by (subst f) simp
  show "(c, ClaimFiq) \<notin> set (new_events s (snd (firq_probe c h s))) \<or>
        claim_fiq_ret h \<noteq> 0 \<and> fst (firq_probe c h s) = - ENODEV"
  proof (cases "\<not> firq_singleton s \<and> resources_valid h")
    case False
    then show ?thesis by (simp add: claim_attempted_iff)
  next
    case True
    with e have "claim_fiq_ret h \<noteq> 0" by (simp add: firq_probe_ok_iff)
    with True show ?thesis
      by (simp add: firq_probe_def resources_valid_def Let_def claim_fiq_def)
  qed
next
  assume "(c, ClaimFiq) \<in> set (new_events s (snd (firq_probe c h s))) \<and> claim_fiq_ret h = 0"
  then have pre: "\<not> firq_singleton s" "resources_valid h" "claim_fiq_ret h = 0"
    by (simp_all add: claim_attempted_iff)
  show "fst (firq_probe c h s) = 0" by (rule firq_probe_success(1) [OF pre])
  show "firq_singleton (snd (firq_probe c h s))" by (rule firq_probe_success(2) [OF pre])
qed

text \<open>
  Claim C10 as amended, on the platform whose vector is busy (the probe fails with
  \<open>-ENODEV\<close>) and on the platform that grants the claim.
\<close>

theorem probe_error_leaves_flag_and_vector_witness:
  "fst (firq_probe 0 host_vector_busy s0) \<noteq> 0 \<and>
   (0, ClaimFiq) \<in> set (new_events s0 (snd (firq_probe 0 host_vector_busy s0))) \<and>
   claim_fiq_ret host_vector_busy \<noteq> 0 \<and>
   \<not> firq_singleton (snd (firq_probe 0 host_vector_busy s0)) \<and>
   \<not> fh_claimed (snd (firq_probe 0 host_vector_busy s0)) \<and>
   fst (firq_probe 0 host_vector_busy s0) = - 19 \<and>
   (0, ClaimFiq) \<in> set (new_events s0 (snd (firq_probe 0 host0 s0))) \<and>
   claim_fiq_ret host0 = 0 \<and>
   fst (firq_probe 0 host0 s0) = 0 \<and> firq_singleton (snd (firq_probe 0 host0 s0))"
proof -
  have e: "fst (firq_probe 0 host_vector_busy s0) \<noteq> 0"
    using host_vector_busy_facts host0_valid(3) by (simp add: firq_probe_ok_iff)
  have a: "(0, ClaimFiq) \<in> set (new_events s0 (snd (firq_probe 0 host_vector_busy s0)))"
    using host_vector_busy_facts host0_valid(3) by (simp add: claim_attempted_iff)
  have b: "(0, ClaimFiq) \<in> set (new_events s0 (snd (firq_probe 0 host0 s0)))"
    using host0_valid by (simp add: claim_attempted_iff)
  show ?thesis
    using probe_error_leaves_flag_and_vector [of 0 host_vector_busy s0]
      probe_error_leaves_flag_and_vector [of 0 host0 s0] e a b host0_valid(2)
      host_vector_busy_facts(2)
    by (simp add: s0_def ENODEV_def)
qed

end
